theory Spec2Isabelle
  imports Complex_Main
begin

section \<open>Numbers, buffers and errors\<close>

text \<open>
  The conversion functions of \<^verbatim>\<open>conversion.js\<close> compute on JavaScript numbers held in
  fixed-length arrays. Numbers are modelled as mathematical reals: the rounding of double
  arithmetic, overflow, signed zeros and NaN have no counterpart here; the rounding of a
  store into a \<^verbatim>\<open>Float32Array\<close> is modelled where a property depends on it. A \<^verbatim>\<open>vec3\<close>
  is a triple, a \<^verbatim>\<open>vec4\<close> and a \<^verbatim>\<open>quat\<close> \<^verbatim>\<open>[x, y, z, w]\<close> are 4-tuples, a \<^verbatim>\<open>mat3\<close> is a
  record of its nine column-major entries \<^verbatim>\<open>m[0]\<close> .. \<^verbatim>\<open>m[8]\<close>.

  A function that writes into an array of its caller returns the content of that array
  after the call next to its result, also when it throws; the arrays passed for
  \<^verbatim>\<open>out\<close> and for the input are distinct objects.

  Where JavaScript yields NaN or an infinity (a division by 0, the square root of a
  negative number, \<^verbatim>\<open>Math.acos\<close> outside \<open>[-1, 1]\<close>) the HOL operation yields some
  real number instead. The source guards or clamps most of these places; the rest is
  reached only from a matrix that is no rotation, and no theorem below rests on a value
  computed there.
\<close>

type_synonym vec3 = "real \<times> real \<times> real"
type_synonym vec4 = "real \<times> real \<times> real \<times> real"
type_synonym quat = "real \<times> real \<times> real \<times> real"

record mat3 =
  m0 :: real
  m1 :: real
  m2 :: real
  m3 :: real
  m4 :: real
  m5 :: real
  m6 :: real
  m7 :: real
  m8 :: real

text \<open>
  The source throws \<^verbatim>\<open>new Error('<function>: degOrRad must be "deg" or "rad"')\<close> for an
  unknown unit selector (\<open>InvalidUnit\<close>, carrying the function's name) and
  \<^verbatim>\<open>new Error("Invalid axis: zero vector")\<close> for a zero axis (\<open>InvalidAxis\<close>).
\<close>

datatype error = InvalidUnit string | InvalidAxis

section \<open>JavaScript \<^verbatim>\<open>Math\<close>\<close>

definition Math_sign :: "real \<Rightarrow> real" where
  "Math_sign v = (if v > 0 then 1 else if v < 0 then - 1 else 0)"

definition Math_atan2 :: "real \<Rightarrow> real \<Rightarrow> real" where
  \<comment> \<open>\<^verbatim>\<open>Math.atan2(y, x)\<close>: the angle of the point \<open>(x, y)\<close> in \<open>(-pi, pi]\<close>, 0 at the origin.\<close>
  "Math_atan2 y x =
     (if x > 0 then arctan (y / x)
      else if x < 0 then (if y \<ge> 0 then arctan (y / x) + pi else arctan (y / x) - pi)
      else if y > 0 then pi / 2
      else if y < 0 then - (pi / 2)
      else 0)"

section \<open>The glMatrix functions the source calls\<close>

text \<open>
  glMatrix is loaded by the page, not part of the repository's sources. Each function
  below returns the new content of the array it is given as \<^verbatim>\<open>out\<close>.
\<close>

definition EPSILON :: real where
  \<comment> \<open>Modelled from the spec: glMatrix's constant \<^verbatim>\<open>EPSILON\<close> is not in the sources; the
      spec leaves the threshold of the degenerate case of quaternion to axis-angle open
      and uses \<^verbatim>\<open>1e-6\<close> for the same test on matrices, which is glMatrix's value.\<close>
  "EPSILON = 1 / 1000000"

definition toRadian :: "real \<Rightarrow> real" where
  \<comment> \<open>Modelled from the spec: \<^verbatim>\<open>glm.toRadian\<close> is not in the sources; it converts an angle
      in degrees to radians.\<close>
  "toRadian a = a * (pi / 180)"

definition toDegree :: "real \<Rightarrow> real" where
  \<comment> \<open>Modelled from the spec: \<^verbatim>\<open>glm.toDegree\<close> is not in the sources; it converts an angle
      in radians to degrees.\<close>
  "toDegree a = a * (180 / pi)"

fun vec3_normalize :: "vec3 \<Rightarrow> vec3" where
  \<comment> \<open>Modelled from the spec: \<^verbatim>\<open>vec3.normalize(out, a)\<close> is not in the sources; it scales
      \<open>a\<close> to unit length. As in glMatrix, a vector of squared length 0 is left as it is
      (no division takes place).\<close>
  "vec3_normalize (x, y, z) =
     (let len = x * x + y * y + z * z;
          len = (if len > 0 then 1 / sqrt len else len)
      in (x * len, y * len, z * len))"

fun quat_normalize :: "quat \<Rightarrow> quat" where
  \<comment> \<open>Modelled from the spec: \<^verbatim>\<open>quat.normalize(out, a)\<close> is not in the sources; it scales
      \<open>a\<close> to unit norm. As in glMatrix, a quaternion of squared norm 0 is left as it is.\<close>
  "quat_normalize (x, y, z, w) =
     (let len = x * x + y * y + z * z + w * w;
          len = (if len > 0 then 1 / sqrt len else len)
      in (x * len, y * len, z * len, w * len))"

fun quat_setAxisAngle :: "vec3 \<Rightarrow> real \<Rightarrow> quat" where
  \<comment> \<open>Modelled from the spec: \<^verbatim>\<open>quat.setAxisAngle(out, axis, rad)\<close> is not in the sources;
      the standard axis-angle formula, sine and cosine of the half angle.\<close>
  "quat_setAxisAngle (ax, ay, az) rad =
     (let rad = rad * 0.5;
          s = sin rad
      in (s * ax, s * ay, s * az, cos rad))"

fun quat_getAxisAngle :: "vec4 \<Rightarrow> quat \<Rightarrow> real \<times> vec4" where
  \<comment> \<open>Modelled from the spec: \<^verbatim>\<open>quat.getAxisAngle(out_axis, q)\<close> is not in the sources;
      angle \<open>2 acos w\<close>, axis \<open>(x, y, z) / sin (angle / 2)\<close>, and the fixed axis \<open>(1, 0, 0)\<close>
      in the degenerate case. It writes the first three entries of \<open>out_axis\<close> and returns
      the angle in radians.\<close>
  "quat_getAxisAngle (o0, o1, o2, o3) (x, y, z, w) =
     (let rad = arccos w * 2;
          s = sin (rad / 2)
      in if s > EPSILON then (rad, (x / s, y / s, z / s, o3))
         else (rad, (1, 0, 0, o3)))"

definition quat_fromEuler :: "real \<Rightarrow> real \<Rightarrow> real \<Rightarrow> quat" where
  \<comment> \<open>Modelled from the spec: \<^verbatim>\<open>quat.fromEuler(out, x, y, z, "zyx")\<close> is not in the sources;
      the Z-Y-X build from three angles in degrees.\<close>
  "quat_fromEuler x y z =
     (let halfToRad = pi / 360;
          x = x * halfToRad; z = z * halfToRad; y = y * halfToRad;
          sx = sin x; cx = cos x;
          sy = sin y; cy = cos y;
          sz = sin z; cz = cos z
      in (sx * cy * cz - cx * sy * sz,
          cx * sy * cz + sx * cy * sz,
          cx * cy * sz - sx * sy * cz,
          cx * cy * cz + sx * sy * sz))"

definition mat3_create :: mat3 where
  \<comment> \<open>Modelled from the spec: \<^verbatim>\<open>mat3.create()\<close> is not in the sources; a new identity
      matrix.\<close>
  "mat3_create =
     \<lparr>m0 = 1, m1 = 0, m2 = 0, m3 = 0, m4 = 1, m5 = 0, m6 = 0, m7 = 0, m8 = 1\<rparr>"

fun mat3_fromQuat :: "quat \<Rightarrow> mat3" where
  \<comment> \<open>Modelled from the spec: \<^verbatim>\<open>mat3.fromQuat(out, q)\<close> is not in the sources; the standard
      closed form of the rotation matrix of a quaternion, column-major.\<close>
  "mat3_fromQuat (x, y, z, w) =
     (let x2 = x + x; y2 = y + y; z2 = z + z;
          xx = x * x2; yx = y * x2; yy = y * y2;
          zx = z * x2; zy = z * y2; zz = z * z2;
          wx = w * x2; wy = w * y2; wz = w * z2
      in \<lparr>m0 = 1 - yy - zz, m1 = yx + wz, m2 = zx - wy,
          m3 = yx - wz, m4 = 1 - xx - zz, m5 = zy + wx,
          m6 = zx + wy, m7 = zy - wx, m8 = 1 - xx - yy\<rparr>)"

section \<open>The conversion functions\<close>

fun quaternionToEuler :: "vec3 \<Rightarrow> quat \<Rightarrow> string \<Rightarrow> vec3" where
  \<comment> \<open>The unused parameter \<^verbatim>\<open>order\<close> is left out. The function has no \<^verbatim>\<open>throw\<close>: with
      neither unit it returns \<open>out\<close> as it was.\<close>
  "quaternionToEuler (o0, o1, o2) (x, y, z, w) degOrRad =
     (let sinr_cosp = 2 * (w * x + y * z);
          cosr_cosp = 1 - 2 * (x * x + y * y);
          alpha = Math_atan2 sinr_cosp cosr_cosp;
          sinp = 2 * (w * y - z * x);
          beta = (if \<bar>sinp\<bar> \<ge> 1 then Math_sign sinp * (pi / 2) else arcsin sinp);
          siny_cosp = 2 * (w * z + x * y);
          cosy_cosp = 1 - 2 * (y * y + z * z);
          gamma = Math_atan2 siny_cosp cosy_cosp
      in if degOrRad = ''deg'' then (toDegree gamma, toDegree beta, toDegree alpha)
         else if degOrRad = ''rad'' then (gamma, beta, alpha)
         else (o0, o1, o2))"

definition quaternionToAxisAngle ::
    "vec4 \<Rightarrow> quat \<Rightarrow> string \<Rightarrow> (error + vec4) \<times> vec4 \<times> quat" where
  \<comment> \<open>Result: the returned array or the error thrown, then the caller's \<open>out\<close> and the
      caller's \<open>q\<close> after the call.\<close>
  "quaternionToAxisAngle out q degOrRad =
     (let q = quat_normalize q;
          (angle, out) = quat_getAxisAngle out q
      in case out of (o0, o1, o2, o3) \<Rightarrow>
           if degOrRad = ''deg'' then
             (Inr (o0, o1, o2, toDegree angle), (o0, o1, o2, toDegree angle), q)
           else if degOrRad = ''rad'' then
             (Inr (o0, o1, o2, angle), (o0, o1, o2, angle), q)
           else (Inl (InvalidUnit ''quaternionToAxisAngle''), out, q))"

definition quaternionToMatrix :: "quat \<Rightarrow> mat3 \<times> quat" where
  \<comment> \<open>Result: the returned matrix, then the caller's \<open>q\<close> after the call.\<close>
  "quaternionToMatrix q =
     (case q of (q0, q1, q2, q3) \<Rightarrow>
        if q0 = q1 \<and> q1 = q2 \<and> q2 = 0 then (mat3_create, q)
        else (let q = quat_normalize q;
                  mat = mat3_fromQuat q
              in (mat, q)))"

definition axisAngleToQuaternion ::
    "real \<Rightarrow> real \<Rightarrow> real \<Rightarrow> real \<Rightarrow> string \<Rightarrow> error + quat" where
  "axisAngleToQuaternion x y z angle degOrRad =
     (let axis = vec3_normalize (x, y, z)
      in if degOrRad = ''deg'' then
           Inr (quat_normalize (quat_setAxisAngle axis (toRadian angle)))
         else if degOrRad = ''rad'' then
           Inr (quat_normalize (quat_setAxisAngle axis angle))
         else Inl (InvalidUnit ''axisAngleToQuaternion''))"

definition eulerToQuaternion ::
    "real \<Rightarrow> real \<Rightarrow> real \<Rightarrow> string \<Rightarrow> error + quat" where
  \<comment> \<open>The unused parameter \<^verbatim>\<open>order\<close> is left out; the builder is always called with
      \<^verbatim>\<open>"zyx"\<close>.\<close>
  "eulerToQuaternion alpha beta gamma degOrRad =
     (if degOrRad = ''deg'' then
        Inr (quat_normalize (quat_fromEuler gamma beta alpha))
      else if degOrRad = ''rad'' then
        (let aDeg = toDegree alpha;
             bDeg = toDegree beta;
             gDeg = toDegree gamma
         in Inr (quat_normalize (quat_fromEuler gDeg bDeg aDeg)))
      else Inl (InvalidUnit ''eulerToQuaternion''))"

definition matrixToAxisAngle ::
    "vec4 \<Rightarrow> mat3 \<Rightarrow> string \<Rightarrow> (error + vec4) \<times> vec4" where
  \<comment> \<open>Result: the returned array or the error thrown, then the caller's \<open>out\<close> after the
      call.\<close>
  "matrixToAxisAngle out m degOrRad =
     (let trace = m0 m + m4 m + m8 m;
          angle = arccos (min (max ((trace - 1) / 2) (- 1)) 1);
          (x, y, z) =
            (if \<bar>angle\<bar> < 1 / 1000000 then (1, 0, 0)
             else if \<bar>pi - angle\<bar> < 1 / 1000000 then
               (if m0 m \<ge> m4 m \<and> m0 m \<ge> m8 m then
                  (let x = sqrt ((m0 m + 1) / 2)
                   in (x, m3 m / (2 * x), m6 m / (2 * x)))
                else if m4 m \<ge> m0 m \<and> m4 m \<ge> m8 m then
                  (let y = sqrt ((m4 m + 1) / 2)
                   in (m3 m / (2 * y), y, m7 m / (2 * y)))
                else
                  (let z = sqrt ((m8 m + 1) / 2)
                   in (m6 m / (2 * z), m7 m / (2 * z), z)))
             else
               (let s = 2 * sin angle
                in ((m5 m - m7 m) / s, (m6 m - m2 m) / s, (m1 m - m3 m) / s)))
      in case out of (o0, o1, o2, o3) \<Rightarrow>
           if degOrRad = ''deg'' then
             (Inr (x, y, z, toDegree angle), (x, y, z, toDegree angle))
           else if degOrRad = ''rad'' then
             (Inr (x, y, z, angle), (x, y, z, angle))
           else (Inl (InvalidUnit ''matrixToAxisAngle''), (x, y, z, o3)))"

section \<open>The caller's input check (\<^verbatim>\<open>main.js\<close>)\<close>

definition getAxisAngleInputs ::
    "real \<Rightarrow> real \<Rightarrow> real \<Rightarrow> real \<Rightarrow> error + (real \<times> real \<times> real \<times> real)" where
  \<comment> \<open>The four arguments are the values \<^verbatim>\<open>parseInput\<close> read from the form.\<close>
  "getAxisAngleInputs x y z angle =
     (if x = 0 \<and> y = 0 \<and> z = 0 then Inl InvalidAxis
      else Inr (x, y, z, angle))"

section \<open>Notions used to state the properties\<close>

definition quat_sqlen :: "quat \<Rightarrow> real" where
  \<comment> \<open>The squared norm of a quaternion; a unit quaternion has squared norm 1.\<close>
  "quat_sqlen q = (case q of (x, y, z, w) \<Rightarrow> x * x + y * y + z * z + w * w)"


text \<open>
  The Euler angles as the specification words them, to be compared with what
  \<open>quaternionToEuler\<close> computes.
\<close>

definition clamp :: "real \<Rightarrow> real \<Rightarrow> real \<Rightarrow> real" where
  "clamp v lo hi = min (max v lo) hi"

definition spec_alpha :: "quat \<Rightarrow> real" where
  "spec_alpha q = (case q of (x, y, z, w) \<Rightarrow>
     Math_atan2 (2 * (w * x + y * z)) (1 - 2 * (x\<^sup>2 + y\<^sup>2)))"

definition spec_beta :: "quat \<Rightarrow> real" where
  "spec_beta q = (case q of (x, y, z, w) \<Rightarrow> arcsin (clamp (2 * (w * y - z * x)) (- 1) 1))"

definition spec_gamma :: "quat \<Rightarrow> real" where
  "spec_gamma q = (case q of (x, y, z, w) \<Rightarrow>
     Math_atan2 (2 * (w * z + x * y)) (1 - 2 * (y\<^sup>2 + z\<^sup>2)))"

section \<open>Arrays that round what they store\<close>







section \<open>Facts about normalisation and unit conversion\<close>


lemma sqlen_pos:
  fixes x y z w :: real
  assumes "(x, y, z, w) \<noteq> (0, 0, 0, 0)"
  shows "0 < x * x + y * y + z * z + w * w"
proof -
  have "0 \<le> x * x" "0 \<le> y * y" "0 \<le> z * z" "0 \<le> w * w" by simp_all
  moreover have "x \<noteq> 0 \<or> y \<noteq> 0 \<or> z \<noteq> 0 \<or> w \<noteq> 0" using assms by simp
  then have "0 < x * x \<or> 0 < y * y \<or> 0 < z * z \<or> 0 < w * w"
    using not_real_square_gt_zero by blast
  ultimately show ?thesis by linarith
qed

lemma sqlen_scaled:
  fixes n :: real
  assumes "0 < n"
  shows "(x / sqrt n) * (x / sqrt n) + (y / sqrt n) * (y / sqrt n)
       + (z / sqrt n) * (z / sqrt n) + (w / sqrt n) * (w / sqrt n)
       = (x * x + y * y + z * z + w * w) / n"
proof -
  have "sqrt n * sqrt n = n" using assms by simp
  then show ?thesis
    unfolding times_divide_times_eq by (simp add: add_divide_distrib)
qed

lemma quat_normalize_nonzero:
  assumes "(x, y, z, w) \<noteq> (0, 0, 0, 0)"
  shows "quat_normalize (x, y, z, w) =
     (x / sqrt (x * x + y * y + z * z + w * w), y / sqrt (x * x + y * y + z * z + w * w),
      z / sqrt (x * x + y * y + z * z + w * w), w / sqrt (x * x + y * y + z * z + w * w))"
  using sqlen_pos[OF assms] by (simp add: Let_def)

lemma quat_normalize_w: "quat_normalize (0, 0, 0, c) = (0, 0, 0, sgn c)"
  by (simp add: Let_def sgn_real_def divide_simps)





section \<open>Unit selectors\<close>

lemma quaternionToAxisAngle_unknown_unit:
  "degOrRad \<noteq> ''deg'' \<Longrightarrow> degOrRad \<noteq> ''rad'' \<Longrightarrow>
   fst (quaternionToAxisAngle out q degOrRad) = Inl (InvalidUnit ''quaternionToAxisAngle'')"
  by (simp add: quaternionToAxisAngle_def Let_def split: prod.splits)

lemma axisAngleToQuaternion_unknown_unit:
  "degOrRad \<noteq> ''deg'' \<Longrightarrow> degOrRad \<noteq> ''rad'' \<Longrightarrow>
   axisAngleToQuaternion x y z angle degOrRad = Inl (InvalidUnit ''axisAngleToQuaternion'')"
  by (simp add: axisAngleToQuaternion_def Let_def)

lemma eulerToQuaternion_unknown_unit:
  "degOrRad \<noteq> ''deg'' \<Longrightarrow> degOrRad \<noteq> ''rad'' \<Longrightarrow>
   eulerToQuaternion alpha beta gamma degOrRad = Inl (InvalidUnit ''eulerToQuaternion'')"
  by (simp add: eulerToQuaternion_def Let_def)

lemma matrixToAxisAngle_unknown_unit:
  "degOrRad \<noteq> ''deg'' \<Longrightarrow> degOrRad \<noteq> ''rad'' \<Longrightarrow>
   fst (matrixToAxisAngle out m degOrRad) = Inl (InvalidUnit ''matrixToAxisAngle'')"
  by (simp add: matrixToAxisAngle_def Let_def split: prod.splits)

text \<open>
  Claim C1: every unit-consuming conversion function fails with \<open>InvalidUnit\<close> on a unit
  selector other than \<^verbatim>\<open>"deg"\<close> and \<^verbatim>\<open>"rad"\<close>, and none returns silently. The four lemmas
  above show it for \<open>quaternionToAxisAngle\<close>, \<open>axisAngleToQuaternion\<close>,
  \<open>eulerToQuaternion\<close> and \<open>matrixToAxisAngle\<close>. \<open>quaternionToEuler\<close> has no final
  \<^verbatim>\<open>else\<close>: on \<^verbatim>\<open>"grad"\<close> it returns \<open>out\<close> as it received it, without an error.
\<close>

theorem C1_quaternionToEuler_grad_returns_out:
  "quaternionToEuler (7, 8, 9) (0, 0, 0, 1) ''grad'' = (7, 8, 9)"
  by simp

section \<open>The zero axis\<close>

text \<open>
  Claim C2, as stated: \<open>axisAngleToQuaternion\<close> with the zero axis fails with
  \<open>InvalidAxis\<close> for every angle and valid unit. The function has no such check: at angle 0
  in radians it returns the identity quaternion.
\<close>

theorem C2_zero_axis_returns_quaternion:
  "axisAngleToQuaternion 0 0 0 0 ''rad'' = Inr (0, 0, 0, 1)"
  by (simp add: axisAngleToQuaternion_def Let_def)

text \<open>
  Claim C2, amended: for every angle and either unit, \<open>axisAngleToQuaternion\<close> with the
  zero axis does not fail with \<open>InvalidAxis\<close>; it returns a quaternion whose \<open>x\<close>, \<open>y\<close> and \<open>z\<close>
  are 0. The zero axis is rejected with \<open>InvalidAxis\<close> by \<open>getAxisAngleInputs\<close>, the reader
  of the form, not by \<open>axisAngleToQuaternion\<close>.
\<close>

theorem C2_zero_axis_rejected_by_reader_only:
  "(\<exists>w. axisAngleToQuaternion 0 0 0 angle ''rad'' = Inr (0, 0, 0, w)) \<and>
   (\<exists>w. axisAngleToQuaternion 0 0 0 angle ''deg'' = Inr (0, 0, 0, w)) \<and>
   getAxisAngleInputs 0 0 0 angle = Inl InvalidAxis"
  by (simp add: axisAngleToQuaternion_def Let_def quat_normalize_w getAxisAngleInputs_def
      del: quat_normalize.simps)

section \<open>Quaternion to axis-angle and back\<close>










section \<open>The round trip and the storage of the arrays\<close>















section \<open>Matrix to axis-angle at a half turn\<close>

text \<open>
  Claim C4: for the matrix \<open>diag (- 1, 1, - 1)\<close> of the half turn about \<open>(0, 1, 0)\<close> and
  the unit \<^verbatim>\<open>"rad"\<close>, \<open>matrixToAxisAngle\<close> returns the axis \<open>(0, 1, 0)\<close> and the angle
  \<open>pi\<close>. The trace is \<open>- 1\<close>, the angle \<open>acos (- 1) = pi\<close>, so the branch for angles near
  180 degrees is taken; \<open>m[0] = - 1\<close> is not the largest diagonal entry, \<open>m[4] = 1\<close> is, and
  the pivot on \<open>m[4]\<close> gives \<open>y = sqrt ((1 + 1) / 2) = 1\<close>, \<open>x = m[3] / 2 = 0\<close>,
  \<open>z = m[7] / 2 = 0\<close>.
\<close>

theorem C4_matrixToAxisAngle_half_turn_about_y:
  "matrixToAxisAngle out
     \<lparr>m0 = - 1, m1 = 0, m2 = 0, m3 = 0, m4 = 1, m5 = 0, m6 = 0, m7 = 0, m8 = - 1\<rparr> ''rad''
   = (Inr (0, 1, 0, pi), (0, 1, 0, pi))"
  using pi_ge_two by (simp add: matrixToAxisAngle_def Let_def split: prod.splits)

section \<open>Quaternion to Euler angles\<close>

lemma beta_clamp:
  "(if \<bar>s\<bar> \<ge> 1 then Math_sign s * (pi / 2) else arcsin s) = arcsin (clamp s (- 1) 1)"
  by (auto simp: clamp_def Math_sign_def min_def max_def)

text \<open>
  Claim C5: when the raw sine term \<open>2 (w y - z x)\<close> has magnitude at least 1,
  \<open>quaternionToEuler\<close> sets the beta output \<open>out[1]\<close> to plus or minus \<open>pi / 2\<close> by the sign
  of the unclamped term (90 or -90 in degrees); \<open>asin\<close> is not evaluated there.
\<close>

theorem C5_quaternionToEuler_gimbal_lock:
  assumes "\<bar>2 * (w * y - z * x)\<bar> \<ge> 1"
  shows "fst (snd (quaternionToEuler out (x, y, z, w) ''rad''))
           = (if 2 * (w * y - z * x) > 0 then pi / 2 else - (pi / 2)) \<and>
         fst (snd (quaternionToEuler out (x, y, z, w) ''deg''))
           = (if 2 * (w * y - z * x) > 0 then 90 else - 90)"
  using assms by (cases out) (auto simp: Let_def Math_sign_def toDegree_def)

text \<open>
  The quaternion of the rotation by +90 degrees about Y is \<open>(0, sqrt 2 / 2, 0, sqrt 2 / 2)\<close>;
  its raw sine term is 1 and its beta is \<open>pi / 2\<close>, 90 in degrees.
\<close>

lemma quarter_turn_about_y:
  "axisAngleToQuaternion 0 1 0 90 ''deg'' = Inr (0, sqrt 2 / 2, 0, sqrt 2 / 2)"
proof -
  have h: "(90::real) * pi / (180 * 2) = pi / 4" by simp
  show ?thesis
    by (simp add: axisAngleToQuaternion_def Let_def toRadian_def h sin_45 cos_45)
qed

theorem C5_quaternionToEuler_gimbal_lock_witness:
  "\<bar>2 * (sqrt 2 / 2 * (sqrt 2 / 2) - 0 * 0)\<bar> \<ge> (1::real) \<and>
   fst (snd (quaternionToEuler (0, 0, 0) (0, sqrt 2 / 2, 0, sqrt 2 / 2) ''rad'')) = pi / 2 \<and>
   fst (snd (quaternionToEuler (0, 0, 0) (0, sqrt 2 / 2, 0, sqrt 2 / 2) ''deg'')) = 90"
proof -
  have h: "\<bar>2 * (sqrt 2 / 2 * (sqrt 2 / 2) - 0 * 0)\<bar> \<ge> (1::real)" by simp
  show ?thesis
    using h C5_quaternionToEuler_gimbal_lock[OF h, of "(0, 0, 0)"]
    by (simp del: quaternionToEuler.simps)
qed

text \<open>
  Claim C6: for every quaternion \<open>(x, y, z, w)\<close>, \<open>quaternionToEuler\<close> computes
  \<open>alpha = atan2 (2 (w x + y z)) (1 - 2 (x\<^sup>2 + y\<^sup>2))\<close>, beta as the \<open>asin\<close> of the clamped
  \<open>2 (w y - z x)\<close> and \<open>gamma = atan2 (2 (w z + x y)) (1 - 2 (y\<^sup>2 + z\<^sup>2))\<close>, and writes
  \<open>out[0] = gamma\<close>, \<open>out[1] = beta\<close>, \<open>out[2] = alpha\<close>, each converted to degrees when
  \<^verbatim>\<open>"deg"\<close> is selected.
\<close>

theorem C6_quaternionToEuler_formula_and_order:
  "quaternionToEuler out (x, y, z, w) ''rad'' =
      (spec_gamma (x, y, z, w), spec_beta (x, y, z, w), spec_alpha (x, y, z, w)) \<and>
   quaternionToEuler out (x, y, z, w) ''deg'' =
      (toDegree (spec_gamma (x, y, z, w)), toDegree (spec_beta (x, y, z, w)),
       toDegree (spec_alpha (x, y, z, w)))"
  by (cases out)
    (simp add: Let_def spec_alpha_def spec_beta_def spec_gamma_def beta_clamp power2_eq_square)

section \<open>Euler angles to quaternion\<close>

lemma product_of_unit_pairs:
  fixes sx :: real
  assumes "sx * sx + cx * cx = 1" "sy * sy + cy * cy = 1" "sz * sz + cz * cz = 1"
  shows "(sx * cy * cz - cx * sy * sz) * (sx * cy * cz - cx * sy * sz)
       + (cx * sy * cz + sx * cy * sz) * (cx * sy * cz + sx * cy * sz)
       + (cx * cy * sz - sx * sy * cz) * (cx * cy * sz - sx * sy * cz)
       + (cx * cy * cz + sx * sy * sz) * (cx * cy * cz + sx * sy * sz) = 1"
proof -
  have "(sx * cy * cz - cx * sy * sz) * (sx * cy * cz - cx * sy * sz)
       + (cx * sy * cz + sx * cy * sz) * (cx * sy * cz + sx * cy * sz)
       + (cx * cy * sz - sx * sy * cz) * (cx * cy * sz - sx * sy * cz)
       + (cx * cy * cz + sx * sy * sz) * (cx * cy * cz + sx * sy * sz)
     = (sx * sx + cx * cx) * (sy * sy + cy * cy) * (sz * sz + cz * cz)"
    by (simp add: algebra_simps)
  then show ?thesis using assms by simp
qed

lemma sin_cos_unit_pair: "sin (a::real) * sin a + cos a * cos a = 1"
  using sin_cos_squared_add [of a] by (simp add: power2_eq_square)

lemma quat_fromEuler_unit: "quat_sqlen (quat_fromEuler x y z) = 1"
  unfolding quat_fromEuler_def quat_sqlen_def Let_def prod.case
  by (rule product_of_unit_pairs) (rule sin_cos_unit_pair)+

lemma quat_normalize_unit: "quat_sqlen q = 1 \<Longrightarrow> quat_normalize q = q"
  by (cases q) (simp add: quat_sqlen_def)

text \<open>
  Claim C7: \<open>eulerToQuaternion\<close> in radians returns what \<open>eulerToQuaternion\<close> in degrees
  returns on the angles converted to degrees; the degree path calls the Z-Y-X builder with
  the angles in the order \<open>(gamma, beta, alpha)\<close>, and the result is a unit quaternion.
\<close>

theorem C7_eulerToQuaternion_rad_via_deg:
  "eulerToQuaternion alpha beta gamma ''rad'' =
     eulerToQuaternion (toDegree alpha) (toDegree beta) (toDegree gamma) ''deg'' \<and>
   eulerToQuaternion alpha beta gamma ''deg'' = Inr (quat_fromEuler gamma beta alpha) \<and>
   quat_sqlen (quat_fromEuler gamma beta alpha) = 1"
  by (simp add: eulerToQuaternion_def Let_def quat_fromEuler_unit quat_normalize_unit
      del: quat_normalize.simps)

section \<open>Quaternion to matrix, and the caller's quaternion\<close>

text \<open>
  Claim C8: when \<open>x\<close>, \<open>y\<close> and \<open>z\<close> are all 0 (whatever \<open>w\<close> is), \<open>quaternionToMatrix\<close>
  returns the identity matrix and leaves the caller's quaternion as it was; otherwise it
  normalizes the quaternion and returns the closed form of the normalized quaternion. It
  has no error result.
\<close>

theorem C8_quaternionToMatrix_short_circuit:
  "(x = 0 \<and> y = 0 \<and> z = 0 \<longrightarrow>
      quaternionToMatrix (x, y, z, w) = (mat3_create, (x, y, z, w))) \<and>
   (\<not> (x = 0 \<and> y = 0 \<and> z = 0) \<longrightarrow>
      quaternionToMatrix (x, y, z, w) =
        (mat3_fromQuat (quat_normalize (x, y, z, w)), quat_normalize (x, y, z, w)))"
  by (auto simp: quaternionToMatrix_def Let_def
      simp del: quat_normalize.simps mat3_fromQuat.simps)

text \<open>
  The zero quaternion and \<open>(0, 0, 0, 5)\<close> give the identity and stay as they are;
  \<open>(0, 0, 2, 0)\<close> becomes \<open>(0, 0, 1, 0)\<close> and gives the half turn about Z.
\<close>

theorem C8_quaternionToMatrix_short_circuit_witness:
  "quaternionToMatrix (0, 0, 0, 0) = (mat3_create, (0, 0, 0, 0)) \<and>
   quaternionToMatrix (0, 0, 0, 5) = (mat3_create, (0, 0, 0, 5)) \<and>
   quaternionToMatrix (0, 0, 2, 0) =
     (\<lparr>m0 = - 1, m1 = 0, m2 = 0, m3 = 0, m4 = - 1, m5 = 0, m6 = 0, m7 = 0, m8 = 1\<rparr>,
      (0, 0, 1, 0))"
  using C8_quaternionToMatrix_short_circuit[of 0 0 0 0]
    C8_quaternionToMatrix_short_circuit[of 0 0 0 5]
    C8_quaternionToMatrix_short_circuit[of 0 0 2 0]
  by (simp add: Let_def)

text \<open>
  Claim C9: for every non-zero quaternion \<open>q\<close>, after \<open>quaternionToAxisAngle\<close> with a valid
  unit, and after \<open>quaternionToMatrix\<close> when it does not short-circuit, the caller's \<open>q\<close>
  holds the normalized form of its original value: \<open>q\<close> divided by its norm, a quaternion
  of norm 1.
\<close>

theorem C9_quaternion_normalized_in_place:
  assumes "(x, y, z, w) \<noteq> (0, 0, 0, 0)"
  shows "snd (snd (quaternionToAxisAngle out (x, y, z, w) ''deg'')) = quat_normalize (x, y, z, w) \<and>
         snd (snd (quaternionToAxisAngle out (x, y, z, w) ''rad'')) = quat_normalize (x, y, z, w) \<and>
         (\<not> (x = y \<and> y = z \<and> z = 0) \<longrightarrow>
            snd (quaternionToMatrix (x, y, z, w)) = quat_normalize (x, y, z, w)) \<and>
         quat_normalize (x, y, z, w) =
           (x / sqrt (x * x + y * y + z * z + w * w), y / sqrt (x * x + y * y + z * z + w * w),
            z / sqrt (x * x + y * y + z * z + w * w), w / sqrt (x * x + y * y + z * z + w * w)) \<and>
         quat_sqlen (quat_normalize (x, y, z, w)) = 1"
proof -
  have a: "snd (snd (quaternionToAxisAngle out q u)) = quat_normalize q" for u q
    by (simp add: quaternionToAxisAngle_def Let_def split: prod.splits
        del: quat_normalize.simps)
  have m: "\<not> (x = y \<and> y = z \<and> z = 0) \<longrightarrow>
            snd (quaternionToMatrix (x, y, z, w)) = quat_normalize (x, y, z, w)"
    by (simp add: quaternionToMatrix_def Let_def del: quat_normalize.simps)
  note n = quat_normalize_nonzero[OF assms]
  note pos = sqlen_pos[OF assms]
  have u: "quat_sqlen (quat_normalize (x, y, z, w)) = 1"
    unfolding n quat_sqlen_def prod.case using sqlen_scaled[OF pos, of x y z w] pos by simp
  show ?thesis using a m n u by blast
qed

text \<open>The quaternion \<open>(0, 0, 3, 4)\<close> of norm 5 is left as \<open>(0, 0, 3 / 5, 4 / 5)\<close>.\<close>

theorem C9_quaternion_normalized_in_place_witness:
  "((0::real), (0::real), (3::real), (4::real)) \<noteq> (0, 0, 0, 0) \<and>
   snd (snd (quaternionToAxisAngle (0, 0, 0, 0) (0, 0, 3, 4) ''deg'')) = (0, 0, 3 / 5, 4 / 5) \<and>
   snd (snd (quaternionToAxisAngle (0, 0, 0, 0) (0, 0, 3, 4) ''rad'')) = (0, 0, 3 / 5, 4 / 5) \<and>
   \<not> ((0::real) = 0 \<and> (0::real) = 3 \<and> (3::real) = 0) \<and>
   snd (quaternionToMatrix (0, 0, 3, 4)) = (0, 0, 3 / 5, 4 / 5)"
proof -
  have h: "((0::real), (0::real), (3::real), (4::real)) \<noteq> (0, 0, 0, 0)" by simp
  have s: "sqrt (25::real) = 5" using real_sqrt_abs2[of 5] by simp
  show ?thesis
    using h C9_quaternion_normalized_in_place[OF h, of "(0, 0, 0, 0)"]
    by (simp add: s del: quat_normalize.simps)
qed

section \<open>What an unknown unit leaves behind\<close>



end
